theory Spec2Isabelle
  imports Complex_Main "HOL-Library.Word" "HOL-Library.Signed_Division"
begin

chapter \<open>The humanized-interaction core of the LinkedIn automation tool\<close>

text \<open>
  A shallow embedding of the Go sources: the timing primitives, the motion synthesizer
  and the typing simulator of package \<open>stealth\<close>, the connection-request and messaging
  pipelines with the storage layer they write to, and the retry wrapper of the
  orchestrating cycle. The first part holds the definitions, each next to the source
  function it embeds; the second part holds the properties.
\<close>

section \<open>Embedding\<close>

subsection \<open>Integers, durations, errors\<close>

text \<open>
  Go's \<open>int\<close>, \<open>int64\<close> and \<open>time.Duration\<close> (nanoseconds in an \<open>int64\<close>) are 64-bit
  two's complement words: \<open>+\<close>, \<open>-\<close> and \<open>*\<close> wrap around, \<open>sint\<close> reads the signed value,
  and \<open>\<le>s\<close>, \<open><s\<close> are the signed comparisons of the source.
\<close>

type_synonym go_int = "64 word"
type_synonym duration = "64 word"

definition Millisecond :: duration where
  "Millisecond = 1000000"

definition Second :: duration where
  "Second = 1000000000"

definition Minute :: duration where
  "Minute = 60000000000"

text \<open>
  An \<open>error\<close> value is what \<open>fmt.Errorf\<close> builds: a message, or a message wrapping
  another error (\<open>%w\<close>). A run-time panic is an error of its own kind.
\<close>

datatype error = Panic string | Errorf string | Wrapf string error

subsection \<open>The random source\<close>

text \<open>
  The package-level \<open>rng\<close> of \<open>stealth.go\<close> is a \<open>*rand.Rand\<close> seeded from the clock.
  It is modelled as the infinite stream of the raw values it will deliver; a call takes
  the head of the stream and leaves the tail. \<open>Int63n n\<close> and \<open>Intn n\<close> panic for
  \<open>n \<le> 0\<close> and otherwise return a value in \<open>[0, n)\<close>; reducing an arbitrary raw value
  modulo \<open>n\<close> reaches every such value. \<open>Float64\<close> returns a multiple of \<open>2\<^sup>-\<^sup>5\<^sup>3\<close> in
  \<open>[0, 1)\<close>.
\<close>

type_synonym rng = "nat \<Rightarrow> nat"

definition const_rng :: "nat \<Rightarrow> rng" where
  "const_rng v = (\<lambda>k. v)"

definition draw :: "rng \<Rightarrow> nat \<times> rng" where
  "draw g = (g 0, \<lambda>k. g (Suc k))"

definition Int63n :: "64 word \<Rightarrow> rng \<Rightarrow> (error + 64 word) \<times> rng" where
  "Int63n n g =
     (if n \<le>s 0 then (Inl (Panic ''invalid argument to Int63n''), g)
      else (case draw g of (r, g') \<Rightarrow> (Inr (word_of_nat (r mod unat n)), g')))"


definition Float64 :: "rng \<Rightarrow> real \<times> rng" where
  "Float64 g = (case draw g of (r, g') \<Rightarrow> (real (r mod 2 ^ 53) / 2 ^ 53, g'))"

subsection \<open>Timing model (\<open>stealth.go\<close>, technique B)\<close>

text \<open>
  \<^verbatim>\<open>
  func RandomDelay(min, max time.Duration) time.Duration {
      if min >= max { return min }
      delta := max - min
      return min + time.Duration(rng.Int63n(int64(delta)))
  }
  \<close>
  The subtraction wraps; \<open>Int63n\<close> panics when the wrapped \<open>delta\<close> is not positive.
\<close>

definition RandomDelay :: "duration \<Rightarrow> duration \<Rightarrow> rng \<Rightarrow> (error + duration) \<times> rng" where
  "RandomDelay mn mx g =
     (if mx \<le>s mn then (Inr mn, g)
      else (let delta = mx - mn in
            case Int63n delta g of
              (Inl e, g') \<Rightarrow> (Inl e, g')
            | (Inr r, g') \<Rightarrow> (Inr (mn + r), g')))"

subsection \<open>Rate governor (\<open>stealth.go\<close>, technique H)\<close>


text \<open>
  \<open>GetCooldownDuration\<close> first chooses the local \<open>baseCooldown\<close> from the hourly count,
  then draws the wait from \<open>[baseCooldown, 2 * baseCooldown)\<close>.
\<close>

definition baseCooldown :: "go_int \<Rightarrow> duration" where
  "baseCooldown actionsThisHour =
     (if 15 <s actionsThisHour then 5 * Minute
      else if 10 <s actionsThisHour then 3 * Minute
      else 2 * Minute)"

definition GetCooldownDuration :: "go_int \<Rightarrow> rng \<Rightarrow> (error + duration) \<times> rng" where
  "GetCooldownDuration actionsThisHour g =
     RandomDelay (baseCooldown actionsThisHour) (baseCooldown actionsThisHour * 2) g"

subsection \<open>Motion synthesizer (\<open>stealth.go\<close>, technique A)\<close>

text \<open>
  A \<open>float64\<close> is modelled as an exact real or NaN: finite values are computed without
  rounding and do not overflow, and a quotient with divisor zero is NaN (the only such
  quotient the embedded code can form is \<open>0/0\<close>, in \<open>CubicBezierCurve\<close> with a single
  step). The functions of package \<open>math\<close> are the real functions, undefined arguments
  giving NaN; \<open>math.Atan2(0, 0)\<close> is \<open>0\<close>.
\<close>

datatype float64 = Fin real | NaN

fun f_add :: "float64 \<Rightarrow> float64 \<Rightarrow> float64" where
  "f_add (Fin a) (Fin b) = Fin (a + b)"
| "f_add _ _ = NaN"

fun f_sub :: "float64 \<Rightarrow> float64 \<Rightarrow> float64" where
  "f_sub (Fin a) (Fin b) = Fin (a - b)"
| "f_sub _ _ = NaN"

fun f_mul :: "float64 \<Rightarrow> float64 \<Rightarrow> float64" where
  "f_mul (Fin a) (Fin b) = Fin (a * b)"
| "f_mul _ _ = NaN"

fun f_div :: "float64 \<Rightarrow> float64 \<Rightarrow> float64" where
  "f_div (Fin a) (Fin b) = (if b = 0 then NaN else Fin (a / b))"
| "f_div _ _ = NaN"

fun Pow :: "float64 \<Rightarrow> nat \<Rightarrow> float64" where
  "Pow (Fin a) n = Fin (a ^ n)"
| "Pow NaN n = (if n = 0 then Fin 1 else NaN)"

fun Sqrt :: "float64 \<Rightarrow> float64" where
  "Sqrt (Fin a) = (if a < 0 then NaN else Fin (sqrt a))"
| "Sqrt NaN = NaN"

definition atan2 :: "real \<Rightarrow> real \<Rightarrow> real" where
  "atan2 y x =
     (if 0 < x then arctan (y / x)
      else if x < 0 then (if 0 \<le> y then arctan (y / x) + pi else arctan (y / x) - pi)
      else if 0 < y then pi / 2
      else if y < 0 then - (pi / 2)
      else 0)"

fun Atan2 :: "float64 \<Rightarrow> float64 \<Rightarrow> float64" where
  "Atan2 (Fin y) (Fin x) = Fin (atan2 y x)"
| "Atan2 _ _ = NaN"

fun Cos :: "float64 \<Rightarrow> float64" where
  "Cos (Fin a) = Fin (cos a)"
| "Cos NaN = NaN"

fun Sin :: "float64 \<Rightarrow> float64" where
  "Sin (Fin a) = Fin (sin a)"
| "Sin NaN = NaN"

record Point =
  X :: float64
  Y :: float64


text \<open>
  One coordinate of the cubic Bezier formula of \<open>CubicBezierCurve\<close>, with the source's
  order of operations:
  \<^verbatim>\<open>
  math.Pow(oneMinusT, 3)*start.X + 3*math.Pow(oneMinusT, 2)*t*control1.X +
      3*oneMinusT*math.Pow(t, 2)*control2.X + math.Pow(t, 3)*end.X
  \<close>
\<close>

definition bezier :: "float64 \<Rightarrow> float64 \<Rightarrow> float64 \<Rightarrow> float64 \<Rightarrow> float64 \<Rightarrow> float64" where
  "bezier t p0 p1 p2 p3 =
     (let oneMinusT = f_sub (Fin 1) t in
      f_add (f_add (f_add (f_mul (Pow oneMinusT 3) p0)
                          (f_mul (f_mul (f_mul (Fin 3) (Pow oneMinusT 2)) t) p1))
                   (f_mul (f_mul (f_mul (Fin 3) oneMinusT) (Pow t 2)) p2))
            (f_mul (Pow t 3) p3))"

text \<open>
  \<open>CubicBezierCurve\<close> allocates \<open>steps\<close> points (\<open>make\<close> panics for a negative length)
  and fills point \<open>i\<close> from \<open>t = float64(i) / float64(steps-1)\<close>.
\<close>

definition CubicBezierCurve ::
  "Point \<Rightarrow> Point \<Rightarrow> Point \<Rightarrow> Point \<Rightarrow> go_int \<Rightarrow> error + Point list" where
  "CubicBezierCurve start endp control1 control2 steps =
     (if steps <s 0 then Inl (Panic ''makeslice: len out of range'')
      else Inr (map (\<lambda>i.
             let t = f_div (Fin (real i)) (Fin (real_of_int (sint (steps - 1))))
             in \<lparr>X = bezier t (X start) (X control1) (X control2) (X endp),
                 Y = bezier t (Y start) (Y control1) (Y control2) (Y endp)\<rparr>)
           [0 ..< nat (sint steps)]))"

text \<open>
  \<open>generateControlPoints\<close> offsets the points at one third and two thirds of the segment
  along the perpendicular, by random amounts of at most 15 percent of the distance.
\<close>

definition generateControlPoints :: "Point \<Rightarrow> Point \<Rightarrow> rng \<Rightarrow> (Point \<times> Point) \<times> rng" where
  "generateControlPoints start endp g =
     (let dx = f_sub (X endp) (X start);
          dy = f_sub (Y endp) (Y start);
          distance = Sqrt (f_add (f_mul dx dx) (f_mul dy dy));
          angle = Atan2 dy dx;
          perpAngle = f_add angle (Fin (pi / 2))
      in case Float64 g of (u1, g1) \<Rightarrow>
         (let offset1 = f_mul (f_mul (f_sub (Fin u1) (Fin 0.5)) distance) (Fin 0.3);
              cp1 = \<lparr>X = f_add (f_add (X start) (f_div dx (Fin 3))) (f_mul (Cos perpAngle) offset1),
                     Y = f_add (f_add (Y start) (f_div dy (Fin 3))) (f_mul (Sin perpAngle) offset1)\<rparr>
          in case Float64 g1 of (u2, g2) \<Rightarrow>
             (let offset2 = f_mul (f_mul (f_sub (Fin u2) (Fin 0.5)) distance) (Fin 0.3);
                  cp2 = \<lparr>X = f_add (f_add (X start) (f_div (f_mul (Fin 2) dx) (Fin 3)))
                                  (f_mul (Cos perpAngle) offset2),
                         Y = f_add (f_add (Y start) (f_div (f_mul (Fin 2) dy) (Fin 3)))
                                  (f_mul (Sin perpAngle) offset2)\<rparr>
              in ((cp1, cp2), g2))))"

text \<open>
  \<open>MoveMouse\<close> starts from a random point of the square \<open>[0, 100)\<^sup>2\<close>, computes the
  50 \<open>pathPoints\<close>, dispatches one mouse-moved event per point and, with probability
  0.3, an overshoot followed by a move back to the target. The result of each dispatch
  is discarded by the source, and the sleeps between the events are left out.
\<close>

definition pathPoints :: "Point \<Rightarrow> Point \<Rightarrow> rng \<Rightarrow> (error + Point list) \<times> rng" where
  "pathPoints start endp g =
     (case generateControlPoints start endp g of
        ((cp1, cp2), g') \<Rightarrow> (CubicBezierCurve start endp cp1 cp2 50, g'))"

datatype mouse_event = MouseMoved float64 float64

definition MoveMouse :: "float64 \<Rightarrow> float64 \<Rightarrow> rng \<Rightarrow> (error + mouse_event list) \<times> rng" where
  "MoveMouse targetX targetY g =
     (case Float64 g of (u1, g1) \<Rightarrow>
      case Float64 g1 of (u2, g2) \<Rightarrow>
      (let start = \<lparr>X = f_mul (Fin u1) (Fin 100), Y = f_mul (Fin u2) (Fin 100)\<rparr>;
           endp = \<lparr>X = targetX, Y = targetY\<rparr>
       in case pathPoints start endp g2 of
            (Inl e, g3) \<Rightarrow> (Inl e, g3)
          | (Inr pts, g3) \<Rightarrow>
              (let moves = map (\<lambda>point. MouseMoved (X point) (Y point)) pts
               in case Float64 g3 of (u3, g4) \<Rightarrow>
                  if u3 < 0.3 then
                    (case Float64 g4 of (u4, g5) \<Rightarrow>
                     case Float64 g5 of (u5, g6) \<Rightarrow>
                     (let overshootX = f_add targetX (f_mul (f_sub (Fin u4) (Fin 0.5)) (Fin 5));
                          overshootY = f_add targetY (f_mul (f_sub (Fin u5) (Fin 0.5)) (Fin 5))
                      in (Inr (moves @ [MouseMoved overshootX overshootY,
                                        MouseMoved targetX targetY]), g6)))
                  else (Inr moves, g4))))"



subsection \<open>Strings and runes\<close>

text \<open>
  A Go string is the list of its bytes (\<open>string\<close>): \<open>len\<close> and slicing count bytes.
  \<open>for _, char := range s\<close> decodes UTF-8: it yields one rune per valid encoding and
  \<open>RuneError\<close> (U+FFFD), advancing one byte, at a byte that starts none. \<open>decodeRune\<close>
  follows \<open>utf8.DecodeRuneInString\<close>: the lead byte fixes the length and the range
  accepted for the second byte (\<open>accepts\<close>); the further bytes are continuation bytes.
\<close>

type_synonym rune = nat

definition RuneError :: rune where
  "RuneError = 65533"

definition is_cont :: "nat \<Rightarrow> bool" where
  "is_cont b = (128 \<le> b \<and> b < 192)"

definition accepts :: "nat \<Rightarrow> nat \<Rightarrow> bool" where
  "accepts b0 b1 =
     (if b0 = 224 then 160 \<le> b1 \<and> b1 < 192
      else if b0 = 237 then 128 \<le> b1 \<and> b1 < 160
      else if b0 = 240 then 144 \<le> b1 \<and> b1 < 192
      else if b0 = 244 then 128 \<le> b1 \<and> b1 < 144
      else is_cont b1)"

definition seqLen :: "nat \<Rightarrow> nat" where
  "seqLen b0 =
     (if b0 < 128 then 1
      else if b0 < 194 \<or> 244 < b0 then 0
      else if b0 < 224 then 2
      else if b0 < 240 then 3
      else 4)"

text \<open>
  \<open>decodeRune\<close> returns the first rune of a non-empty byte sequence and its width;
  \<open>seqLen\<close> is the length announced by the lead byte (0 for a byte that cannot lead).
\<close>

definition decodeRune :: "nat list \<Rightarrow> rune \<times> nat" where
  "decodeRune s =
     (case s of
        [] \<Rightarrow> (RuneError, 0)
      | b0 # bs \<Rightarrow>
          if seqLen b0 = 1 then (b0, 1)
          else if seqLen b0 = 0 \<or> length s < seqLen b0 then (RuneError, 1)
          else if \<not> accepts b0 (bs ! 0) then (RuneError, 1)
          else if seqLen b0 = 2 then ((b0 - 192) * 64 + (bs ! 0 - 128), 2)
          else if \<not> is_cont (bs ! 1) then (RuneError, 1)
          else if seqLen b0 = 3
            then ((b0 - 224) * 4096 + (bs ! 0 - 128) * 64 + (bs ! 1 - 128), 3)
          else if \<not> is_cont (bs ! 2) then (RuneError, 1)
          else ((b0 - 240) * 262144 + (bs ! 0 - 128) * 4096 + (bs ! 1 - 128) * 64
                  + (bs ! 2 - 128), 4))"

fun decode :: "nat list \<Rightarrow> rune list" where
  "decode [] = []"
| "decode (b0 # bs) =
     (case decodeRune (b0 # bs) of (r, w) \<Rightarrow> r # decode (drop (w - 1) bs))"

definition runes :: "string \<Rightarrow> rune list" where
  "runes s = decode (map of_char s)"

text \<open>\<open>strings.Split(s, " ")\<close>: the pieces of \<open>s\<close> between the spaces, one more than spaces.\<close>

fun Split :: "string \<Rightarrow> char \<Rightarrow> string list" where
  "Split [] sep = [[]]"
| "Split (c # cs) sep =
     (if c = sep then [] # Split cs sep
      else (case Split cs sep of w # ws \<Rightarrow> (c # w) # ws | [] \<Rightarrow> [[c]]))"


subsection \<open>Typing simulator (\<open>stealth.go\<close>, technique E)\<close>

text \<open>
  The typing routines act on the page through the element's \<open>Input\<close> method and the
  keyboard. An event records one such call, named after the statement that makes it:
  \<open>TypoInput\<close> is \<open>Input(string(wrongChar))\<close>, \<open>CharInput\<close> is \<open>Input(string(char))\<close>,
  \<open>Backspace\<close> is \<open>page.Keyboard.Press(input.Backspace)\<close>; the note routine of
  \<open>connection.go\<close> sends the Backspace key through \<open>Input\<close> (\<open>BackspaceInput\<close>) and
  the space between words as \<open>Input(" ")\<close> (\<open>SpaceInput\<close>); the later note routine
  enters the whole text at once (\<open>TextInput\<close>) or sets the field's value from a script
  (\<open>SetValue\<close>). \<open>LogWarn\<close> is a warning written to the log. The source discards the
  results of the per-character \<open>Input\<close> and \<open>Press\<close> calls. The sleeps between the events,
  and the delays drawn only to be slept, are left out: their bounds are constants with
  \<open>min < max\<close>, and no event depends on them.
\<close>

datatype event =
    TypoInput rune
  | Backspace
  | CharInput rune
  | BackspaceInput
  | SpaceInput
  | TextInput string
  | SetValue string
  | LogWarn string


definition lookup_typos :: "(char \<times> string) list \<Rightarrow> rune \<Rightarrow> rune list option" where
  "lookup_typos m r =
     map_option (map of_char) (map_of (map (\<lambda>(k, v). (of_char k :: nat, v)) m) r)"

text \<open>
  \<open>randomTypo\<close> looks up \<open>lowerChar := rune(strings.ToLower(string(char))[0])\<close>, the first
  byte of the lower-cased encoding of the rune. \<open>strings.ToLower\<close> rests on the Unicode
  tables of the standard library; \<open>toLower0\<close> stands for this first byte and is a
  parameter of the model. \<open>ascii_toLower0\<close> is its value on ASCII runes.
\<close>

definition ascii_toLower0 :: "rune \<Rightarrow> rune" where
  "ascii_toLower0 c = (if 65 \<le> c \<and> c \<le> 90 then c + 32 else c)"







subsection \<open>Typing a connection note (\<open>connection\<close> package)\<close>

text \<open>
  Both versions of \<open>TypePersonalizedNote\<close> first cut a note longer than
  \<open>MaxNoteLength\<close> bytes and log a warning:
  \<^verbatim>\<open>
  if len(note) > MaxNoteLength {
      note = note[:MaxNoteLength-3] + "..."
      logger.Warn("Note truncated to fit character limit", "max_length", MaxNoteLength)
  }
  \<close>
\<close>

definition MaxNoteLength :: nat where
  "MaxNoteLength = 300"

definition truncateNote :: "string \<Rightarrow> string" where
  "truncateNote note =
     (if MaxNoteLength < length note then take (MaxNoteLength - 3) note @ ''...'' else note)"

definition truncationWarning :: "string \<Rightarrow> event list" where
  "truncationWarning note =
     (if MaxNoteLength < length note
      then [LogWarn ''Note truncated to fit character limit''] else [])"

text \<open>
  What the page answers to the note routines: which selectors resolve to an element,
  the results of the click, of \<open>Input\<close> and of the script that sets the value, and the
  value read back from the field (an error, or the string). The selectors are tried in
  order until one resolves; the routine fails only when none does.
\<close>

record note_page =
  np_selector_ok :: "string \<Rightarrow> bool"
  np_click_err :: "error option"
  np_input_err :: "error option"
  np_js_err :: "error option"
  np_value :: "error + string"

definition noteSelectors :: "string list" where
  "noteSelectors =
     [''textarea[name='message']'', ''textarea[id*='custom-message']'',
      ''textarea.send-invite__custom-message'', ''textarea#custom-message'',
      ''textarea[aria-label*='note']'']"

text \<open>
  \<open>Duration.Milliseconds\<close> divides by \<open>10\<^sup>6\<close>, truncating towards zero. The
  \<open>randomTypo\<close> of the \<open>connection\<close> package has a smaller table and picks the index
  \<open>int(RandomDelay(0, len(typos) * Millisecond).Milliseconds()) % len(typos)\<close>.
\<close>

definition Milliseconds :: "duration \<Rightarrow> go_int" where
  "Milliseconds d = word_of_int (sint d sdiv 1000000)"

definition noteTypoMap :: "(char \<times> string) list" where
  "noteTypoMap =
     [(CHR ''a'', ''sqw''), (CHR ''b'', ''vn''), (CHR ''c'', ''xv''), (CHR ''d'', ''sf''),
      (CHR ''e'', ''wr''), (CHR ''f'', ''dg''), (CHR ''g'', ''fh''), (CHR ''h'', ''gj''),
      (CHR ''i'', ''uo''), (CHR ''j'', ''hk''), (CHR ''k'', ''jl''), (CHR ''l'', ''ko''),
      (CHR ''m'', ''n''), (CHR ''n'', ''bm''), (CHR ''o'', ''ip''), (CHR ''p'', ''o''),
      (CHR ''r'', ''et''), (CHR ''s'', ''ad''), (CHR ''t'', ''ry''), (CHR ''u'', ''yi''),
      (CHR ''v'', ''cb''), (CHR ''w'', ''qe''), (CHR ''x'', ''zc''), (CHR ''y'', ''tu''),
      (CHR ''z'', ''x'')]"

definition noteRandomTypo :: "(rune \<Rightarrow> rune) \<Rightarrow> rune \<Rightarrow> rng \<Rightarrow> (error + rune) \<times> rng" where
  "noteRandomTypo toLower0 char g =
     (case lookup_typos noteTypoMap (toLower0 char) of
        Some typos \<Rightarrow>
          if 0 < length typos then
            (case RandomDelay 0 (word_of_nat (length typos) * Millisecond) g of
               (Inl e, g') \<Rightarrow> (Inl e, g')
             | (Inr d, g') \<Rightarrow>
                 (let i = sint (Milliseconds d) smod int (length typos)
                  in if 0 \<le> i \<and> i < int (length typos) then (Inr (typos ! nat i), g')
                     else (Inl (Panic ''index out of range''), g')))
          else (Inr char, g)
      | None \<Rightarrow> (Inr char, g))"

text \<open>
  The typing loop of \<open>connection.go\<close>: the note is split at the spaces and typed word by
  word; a typo is injected when \<open>RandomDelay(0, 100ms) < 2ms\<close>; a space follows every
  word but the last.
\<close>

fun typeWord :: "(rune \<Rightarrow> rune) \<Rightarrow> rune list \<Rightarrow> rng \<Rightarrow> (error option \<times> event list) \<times> rng" where
  "typeWord toLower0 [] g = ((None, []), g)"
| "typeWord toLower0 (char # rest) g =
     (case RandomDelay 0 (100 * Millisecond) g of
        (Inl e, g1) \<Rightarrow> ((Some e, []), g1)
      | (Inr d, g1) \<Rightarrow>
          if d <s 2 * Millisecond then
            (case noteRandomTypo toLower0 char g1 of
               (Inl e, g2) \<Rightarrow> ((Some e, []), g2)
             | (Inr wrongChar, g2) \<Rightarrow>
                 (case typeWord toLower0 rest g2 of
                    ((r, evs), g3) \<Rightarrow>
                      ((r, TypoInput wrongChar # BackspaceInput # CharInput char # evs), g3)))
          else
            (case typeWord toLower0 rest g1 of
               ((r, evs), g2) \<Rightarrow> ((r, CharInput char # evs), g2)))"

fun typeWords :: "(rune \<Rightarrow> rune) \<Rightarrow> string list \<Rightarrow> rng \<Rightarrow> (error option \<times> event list) \<times> rng" where
  "typeWords toLower0 [] g = ((None, []), g)"
| "typeWords toLower0 (word # rest) g =
     (case typeWord toLower0 (runes word) g of
        ((Some e, evs), g1) \<Rightarrow> ((Some e, evs), g1)
      | ((None, evs), g1) \<Rightarrow>
          (case typeWords toLower0 rest g1 of
             ((r, evs'), g2) \<Rightarrow>
               ((r, evs @ (if rest \<noteq> [] then [SpaceInput] else []) @ evs'), g2)))"

definition TypePersonalizedNote ::
  "(rune \<Rightarrow> rune) \<Rightarrow> note_page \<Rightarrow> string \<Rightarrow> rng \<Rightarrow> (error option \<times> event list) \<times> rng" where
  "TypePersonalizedNote toLower0 pg note g =
     (let warn = truncationWarning note; note' = truncateNote note in
      if \<not> list_ex (np_selector_ok pg) noteSelectors
      then ((Some (Errorf ''note field not found''), warn), g)
      else
        (case np_click_err pg of
           Some e \<Rightarrow> ((Some (Wrapf ''failed to click note field'' e), warn), g)
         | None \<Rightarrow>
             (case typeWords toLower0 (Split note' CHR '' '') g of
                ((r, evs), g') \<Rightarrow> ((r, warn @ evs), g'))))"

text \<open>
  The later version (\<open>part_003\<close>) enters the whole note with one \<open>Input\<close> call, falls
  back to a script that sets the value, and reads the value back: an empty value is an
  error, a failed read only a warning.
\<close>

definition verifyNote :: "note_page \<Rightarrow> event list \<Rightarrow> error option \<times> event list" where
  "verifyNote pg evs =
     (case np_value pg of
        Inl e \<Rightarrow> (None, evs)
      | Inr v \<Rightarrow>
          if v = [] then (Some (Errorf ''note text was not entered successfully''), evs)
          else (None, evs))"

definition TypePersonalizedNote_p3 :: "note_page \<Rightarrow> string \<Rightarrow> error option \<times> event list" where
  "TypePersonalizedNote_p3 pg note =
     (let warn = truncationWarning note; note' = truncateNote note in
      if \<not> list_ex (np_selector_ok pg) noteSelectors
      then (Some (Errorf ''note field not found after trying all selectors''), warn)
      else
        (case np_click_err pg of
           Some e \<Rightarrow> (Some (Wrapf ''failed to click note field'' e), warn)
         | None \<Rightarrow>
             (case np_input_err pg of
                None \<Rightarrow> verifyNote pg (warn @ [TextInput note'])
              | Some err \<Rightarrow>
                  (case np_js_err pg of
                     Some jsErr \<Rightarrow> (Some (Errorf ''failed to enter note text''), warn)
                   | None \<Rightarrow> verifyNote pg (warn @ [SetValue note'])))))"

text \<open>A page on which every step succeeds, and a note of 301 bytes.\<close>

definition good_page :: note_page where
  "good_page = \<lparr>np_selector_ok = (\<lambda>s. True), np_click_err = None, np_input_err = None,
     np_js_err = None, np_value = Inr ''x''\<rparr>"



subsection \<open>Storage (package \<open>storage\<close>)\<close>

text \<open>
  The tables of the SQLite database are lists of rows, in insertion order. A time is a
  number of seconds since the epoch, and SQLite's \<open>DATE\<close> is the day it falls on. Every
  storage function runs one SQL statement, which can fail; the \<open>fault\<close> argument is the
  error of that statement, if any, and a failed \<open>INSERT\<close> leaves the table as it was.
\<close>

type_synonym time = nat

definition date :: "time \<Rightarrow> nat" where
  "date t = t div 86400"

record ConnectionRequest =
  cr_ProfileURL :: string
  cr_Note :: string
  cr_SentAt :: time
  cr_Accepted :: bool

record Message =
  msg_ProfileURL :: string
  msg_Message :: string
  msg_SentAt :: time

record Action =
  act_ActionType :: string
  act_Timestamp :: time

record database =
  connection_requests :: "ConnectionRequest list"
  messages :: "Message list"
  actions :: "Action list"

definition RecordConnectionRequest ::
  "error option \<Rightarrow> ConnectionRequest \<Rightarrow> database \<Rightarrow> error option \<times> database" where
  "RecordConnectionRequest fault req db =
     (case fault of
        Some e \<Rightarrow> (Some (Wrapf ''failed to record connection request'' e), db)
      | None \<Rightarrow> (None, db\<lparr>connection_requests := connection_requests db @ [req]\<rparr>))"

text \<open>\<open>SELECT COUNT(*) FROM connection_requests WHERE DATE(sent_at) = DATE('now')\<close>\<close>

definition GetConnectionRequestsSentToday ::
  "error option \<Rightarrow> time \<Rightarrow> database \<Rightarrow> go_int \<times> error option" where
  "GetConnectionRequestsSentToday fault now db =
     (case fault of
        Some e \<Rightarrow> (0, Some (Wrapf ''failed to get today's request count'' e))
      | None \<Rightarrow>
          (word_of_nat (length (filter (\<lambda>r. date (cr_SentAt r) = date now)
                                       (connection_requests db))), None))"

definition RecordMessage ::
  "error option \<Rightarrow> Message \<Rightarrow> database \<Rightarrow> error option \<times> database" where
  "RecordMessage fault msg db =
     (case fault of
        Some e \<Rightarrow> (Some (Wrapf ''failed to record message'' e), db)
      | None \<Rightarrow> (None, db\<lparr>messages := messages db @ [msg]\<rparr>))"

text \<open>\<open>SELECT COUNT(*) FROM messages WHERE profile_url = ?\<close>, then \<open>count > 0\<close>.\<close>

definition HasSentMessage ::
  "error option \<Rightarrow> string \<Rightarrow> database \<Rightarrow> bool \<times> error option" where
  "HasSentMessage fault profileURL db =
     (case fault of
        Some e \<Rightarrow> (False, Some (Wrapf ''failed to check message history'' e))
      | None \<Rightarrow>
          (0 < length (filter (\<lambda>m. msg_ProfileURL m = profileURL) (messages db)), None))"

definition RecordAction ::
  "error option \<Rightarrow> string \<Rightarrow> time \<Rightarrow> database \<Rightarrow> error option \<times> database" where
  "RecordAction fault actionType now db =
     (case fault of
        Some e \<Rightarrow> (Some (Wrapf ''failed to record action'' e), db)
      | None \<Rightarrow>
          (None, db\<lparr>actions := actions db @ [\<lparr>act_ActionType = actionType, act_Timestamp = now\<rparr>]\<rparr>))"

subsection \<open>Admission check of the \<open>connection\<close> package\<close>

text \<open>
  Of the configuration only the daily limit matters here.
  \<^verbatim>\<open>
  func CheckDailyLimit(cfg *config.Config) (bool, int, error) {
      requestsToday, err := storage.GetConnectionRequestsSentToday()
      if err != nil { return false, 0, fmt.Errorf("failed to check daily limit: %w", err) }
      remaining := cfg.Connection.DailyLimit - requestsToday
      allowed := remaining > 0
      return allowed, remaining, nil
  }
  \<close>
\<close>

record Config =
  DailyLimit :: go_int


subsection \<open>Sending a connection request\<close>

text \<open>
  One run of \<open>SendConnectionRequest\<close> meets an environment: the faults of its three
  storage calls, the clock at the check, at the record of the request and at the record
  of the action, and what the page answers at each step (\<open>hasAddNoteOption\<close> never
  returns an error). The steps whose errors the source only logs (scrolling, waiting
  for an idle network, removing overlays) emit nothing the properties depend on and
  are left out, as are the sleeps. The run returns its error, the database and the
  page steps it attempted, in order; when it returns an error after a page step, that
  step is the one that failed.
\<close>

record connect_env =
  ce_count_fault :: "error option"
  ce_now :: time
  ce_navigate_err :: "error option"
  ce_waitload_err :: "error option"
  ce_click_connect_err :: "error option"
  ce_has_note_option :: bool
  ce_click_add_note_err :: "error option"
  ce_note_page :: note_page
  ce_click_send_err :: "error option"
  ce_dismiss_err :: "error option"
  ce_record_request_fault :: "error option"
  ce_sent_at :: time
  ce_record_action_fault :: "error option"
  ce_action_at :: time

datatype page_step =
    Navigate string
  | WaitLoad
  | ClickConnect
  | ClickAddNote
  | TypeNote "event list"
  | ClickSend
  | DismissPrompt
  | ClickMessage
  | TypeMessage string
  | ClickSendMessage

text \<open>
  The end of both versions: the request and the action are recorded once the Send
  button has been clicked; a failure to record is logged and the run still returns nil.
\<close>

definition recordRequest ::
  "connect_env \<Rightarrow> string \<Rightarrow> string \<Rightarrow> database \<Rightarrow> database" where
  "recordRequest env profileURL nt db =
     (case RecordConnectionRequest (ce_record_request_fault env)
             \<lparr>cr_ProfileURL = profileURL, cr_Note = nt, cr_SentAt = ce_sent_at env,
              cr_Accepted = False\<rparr> db of
        (err1, db1) \<Rightarrow>
          (case RecordAction (ce_record_action_fault env) ''connection_request''
                  (ce_action_at env) db1 of
             (err2, db2) \<Rightarrow> db2))"

text \<open>
  The page part of the version of \<open>connection.go\<close>, from the navigation to the click on
  Send: the first failing step ends it with its error. A note is typed only when one
  was given and the dialog offers the option; a failure to add the note is logged and
  the request is sent without it.
\<close>

definition connectSteps ::
  "(rune \<Rightarrow> rune) \<Rightarrow> connect_env \<Rightarrow> string \<Rightarrow> string \<Rightarrow> rng
     \<Rightarrow> (error option \<times> page_step list) \<times> rng" where
  "connectSteps toLower0 env profileURL nt g =
     (case ce_navigate_err env of
        Some e \<Rightarrow> ((Some (Wrapf ''failed to navigate to profile'' e), [Navigate profileURL]), g)
      | None \<Rightarrow>
     (case ce_waitload_err env of
        Some e \<Rightarrow>
          ((Some (Wrapf ''failed to wait for page load'' e), [Navigate profileURL, WaitLoad]), g)
      | None \<Rightarrow>
     (case ce_click_connect_err env of
        Some e \<Rightarrow>
          ((Some (Wrapf ''failed to click connect button'' e),
            [Navigate profileURL, WaitLoad, ClickConnect]), g)
      | None \<Rightarrow>
     (case (if ce_has_note_option env \<and> nt \<noteq> []
            then (case ce_click_add_note_err env of
                    Some e \<Rightarrow> ([ClickAddNote], g)
                  | None \<Rightarrow>
                      (case TypePersonalizedNote toLower0 (ce_note_page env) nt g of
                         ((r, evs), g') \<Rightarrow> ([ClickAddNote, TypeNote evs], g')))
            else ([], g)) of
        (noteSteps, g') \<Rightarrow>
          (case ce_click_send_err env of
             Some e \<Rightarrow>
               ((Some (Wrapf ''failed to click send button'' e),
                 [Navigate profileURL, WaitLoad, ClickConnect] @ noteSteps @ [ClickSend]), g')
           | None \<Rightarrow>
               ((None, [Navigate profileURL, WaitLoad, ClickConnect] @ noteSteps @ [ClickSend]),
                g'))))))"

text \<open>
  \<open>SendConnectionRequest\<close> of \<open>connection.go\<close>: the admission check, the page part, and
  the records.
\<close>

definition SendConnectionRequest ::
  "(rune \<Rightarrow> rune) \<Rightarrow> connect_env \<Rightarrow> string \<Rightarrow> string \<Rightarrow> Config \<Rightarrow> database \<Rightarrow> rng
     \<Rightarrow> (error option \<times> database \<times> page_step list) \<times> rng" where
  "SendConnectionRequest toLower0 env profileURL nt cfg db g =
     (case GetConnectionRequestsSentToday (ce_count_fault env) (ce_now env) db of
        (n, Some e) \<Rightarrow> ((Some (Wrapf ''failed to check daily limit'' e), db, []), g)
      | (requestsToday, None) \<Rightarrow>
          if DailyLimit cfg \<le>s requestsToday
          then ((Some (Errorf ''daily connection request limit reached''), db, []), g)
          else
            (case connectSteps toLower0 env profileURL nt g of
               ((Some e, steps), g') \<Rightarrow> ((Some e, db, steps), g')
             | ((None, steps), g') \<Rightarrow>
                 ((None, recordRequest env profileURL nt db, steps), g')))"

text \<open>
  The version of \<open>part_003\<close>: an empty note is replaced by \<open>DefaultNote\<close>, the note is
  entered whenever the dialog offers the option, and the verification prompt is
  dismissed after the click on Send (a failure to dismiss it is logged).
\<close>

definition DefaultNote :: string where
  "DefaultNote = ''Hi, I came across your profile and was impressed by your background and experience. I'd love to connect and exchange insights about the industry. I believe we could have valuable discussions and potentially explore collaboration opportunities. Looking forward to connecting with you and learning from your expertise.''"

definition effectiveNote :: "string \<Rightarrow> string" where
  "effectiveNote nt = (if nt = [] then DefaultNote else nt)"

definition connectSteps_p3 ::
  "connect_env \<Rightarrow> string \<Rightarrow> string \<Rightarrow> error option \<times> page_step list" where
  "connectSteps_p3 env profileURL nt =
     (case ce_navigate_err env of
        Some e \<Rightarrow> (Some (Wrapf ''failed to navigate to profile'' e), [Navigate profileURL])
      | None \<Rightarrow>
     (case ce_waitload_err env of
        Some e \<Rightarrow>
          (Some (Wrapf ''failed to wait for page load'' e), [Navigate profileURL, WaitLoad])
      | None \<Rightarrow>
     (case ce_click_connect_err env of
        Some e \<Rightarrow>
          (Some (Wrapf ''failed to click connect button'' e),
           [Navigate profileURL, WaitLoad, ClickConnect])
      | None \<Rightarrow>
     (let noteSteps =
            (if ce_has_note_option env
             then (case ce_click_add_note_err env of
                     Some e \<Rightarrow> [ClickAddNote]
                   | None \<Rightarrow>
                       [ClickAddNote,
                        TypeNote (snd (TypePersonalizedNote_p3 (ce_note_page env)
                                         (effectiveNote nt)))])
             else [])
      in case ce_click_send_err env of
           Some e \<Rightarrow>
             (Some (Wrapf ''failed to click send button'' e),
              [Navigate profileURL, WaitLoad, ClickConnect] @ noteSteps @ [ClickSend])
         | None \<Rightarrow>
             (None, [Navigate profileURL, WaitLoad, ClickConnect] @ noteSteps
                      @ [ClickSend, DismissPrompt])))))"

definition SendConnectionRequest_p3 ::
  "connect_env \<Rightarrow> string \<Rightarrow> string \<Rightarrow> Config \<Rightarrow> database
     \<Rightarrow> error option \<times> database \<times> page_step list" where
  "SendConnectionRequest_p3 env profileURL nt cfg db =
     (case GetConnectionRequestsSentToday (ce_count_fault env) (ce_now env) db of
        (n, Some e) \<Rightarrow> (Some (Wrapf ''failed to check daily limit'' e), db, [])
      | (requestsToday, None) \<Rightarrow>
          if DailyLimit cfg \<le>s requestsToday
          then (Some (Errorf ''daily connection request limit reached''), db, [])
          else
            (case connectSteps_p3 env profileURL nt of
               (Some e, steps) \<Rightarrow> (Some e, db, steps)
             | (None, steps) \<Rightarrow>
                 (None, recordRequest env profileURL (effectiveNote nt) db, steps)))"

text \<open>
  A run reaches the successful send step when the count query answers, the limit is
  not reached, and navigation, page load, the click on Connect and the click on Send
  succeed.
\<close>

definition reaches_send :: "connect_env \<Rightarrow> Config \<Rightarrow> database \<Rightarrow> bool" where
  "reaches_send env cfg db =
     (ce_count_fault env = None \<and>
      \<not> DailyLimit cfg \<le>s fst (GetConnectionRequestsSentToday None (ce_now env) db) \<and>
      ce_navigate_err env = None \<and> ce_waitload_err env = None \<and>
      ce_click_connect_err env = None \<and> ce_click_send_err env = None)"

subsection \<open>Sending a follow-up message (package \<open>messaging\<close>)\<close>

text \<open>
  \<open>SendMessage\<close> first asks the storage whether a message to the profile is recorded and
  returns nil at once if so. Otherwise it navigates, clicks the Message button, types
  and sends (\<open>messageSteps\<close>, ended by the first failing step), and records the message
  and the action; a failure to record is logged and the run still returns nil.
  \<open>typeMessage\<close> types the message word by word without typos; it is one step here.
\<close>

record message_env =
  me_has_sent_fault :: "error option"
  me_navigate_err :: "error option"
  me_waitload_err :: "error option"
  me_click_message_err :: "error option"
  me_type_message_err :: "error option"
  me_click_send_err :: "error option"
  me_record_message_fault :: "error option"
  me_sent_at :: time
  me_record_action_fault :: "error option"
  me_action_at :: time

definition messageSteps ::
  "message_env \<Rightarrow> string \<Rightarrow> string \<Rightarrow> error option \<times> page_step list" where
  "messageSteps env profileURL message =
     (case me_navigate_err env of
        Some e \<Rightarrow> (Some (Wrapf ''failed to navigate to profile'' e), [Navigate profileURL])
      | None \<Rightarrow>
     (case me_waitload_err env of
        Some e \<Rightarrow>
          (Some (Wrapf ''failed to wait for page load'' e), [Navigate profileURL, WaitLoad])
      | None \<Rightarrow>
     (case me_click_message_err env of
        Some e \<Rightarrow>
          (Some (Wrapf ''failed to click message button'' e),
           [Navigate profileURL, WaitLoad, ClickMessage])
      | None \<Rightarrow>
     (case me_type_message_err env of
        Some e \<Rightarrow>
          (Some (Wrapf ''failed to type message'' e),
           [Navigate profileURL, WaitLoad, ClickMessage, TypeMessage message])
      | None \<Rightarrow>
     (case me_click_send_err env of
        Some e \<Rightarrow>
          (Some (Wrapf ''failed to send message'' e),
           [Navigate profileURL, WaitLoad, ClickMessage, TypeMessage message,
            ClickSendMessage])
      | None \<Rightarrow>
          (None, [Navigate profileURL, WaitLoad, ClickMessage, TypeMessage message,
                  ClickSendMessage]))))))"

definition recordSent :: "message_env \<Rightarrow> string \<Rightarrow> string \<Rightarrow> database \<Rightarrow> database" where
  "recordSent env profileURL message db =
     (case RecordMessage (me_record_message_fault env)
             \<lparr>msg_ProfileURL = profileURL, msg_Message = message, msg_SentAt = me_sent_at env\<rparr>
             db of
        (err1, db1) \<Rightarrow>
          (case RecordAction (me_record_action_fault env) ''message_sent'' (me_action_at env)
                  db1 of
             (err2, db2) \<Rightarrow> db2))"

definition SendMessage ::
  "message_env \<Rightarrow> string \<Rightarrow> string \<Rightarrow> database \<Rightarrow> error option \<times> database \<times> page_step list" where
  "SendMessage env profileURL message db =
     (case HasSentMessage (me_has_sent_fault env) profileURL db of
        (b, Some e) \<Rightarrow> (Some (Wrapf ''failed to check message history'' e), db, [])
      | (alreadySent, None) \<Rightarrow>
          if alreadySent then (None, db, [])
          else
            (case messageSteps env profileURL message of
               (Some e, steps) \<Rightarrow> (Some e, db, steps)
             | (None, steps) \<Rightarrow> (None, recordSent env profileURL message db, steps)))"

text \<open>
  A sequence of invocations of \<open>SendMessage\<close>, each with its environment, profile and
  message, run one after the other on the same database. \<open>delivered\<close> counts the
  invocations to a profile in which the Send button was clicked without error.
\<close>

definition sent_ok :: "error option \<times> database \<times> page_step list \<Rightarrow> bool" where
  "sent_ok res = (fst res = None \<and> ClickSendMessage \<in> set (snd (snd res)))"

fun delivered :: "string \<Rightarrow> (message_env \<times> string \<times> string) list \<Rightarrow> database \<Rightarrow> nat" where
  "delivered url [] db = 0"
| "delivered url ((env, profileURL, message) # calls) db =
     (let res = SendMessage env profileURL message db
      in (if profileURL = url \<and> sent_ok res then 1 else 0)
           + delivered url calls (fst (snd res)))"

text \<open>The record of every message sent in a sequence of invocations gets stored.\<close>

definition records_stored :: "(message_env \<times> string \<times> string) list \<Rightarrow> bool" where
  "records_stored calls = list_all (\<lambda>c. me_record_message_fault (fst c) = None) calls"

text \<open>Environments and databases for closed instances.\<close>

definition ok_connect_env :: connect_env where
  "ok_connect_env = \<lparr>ce_count_fault = None, ce_now = 86400, ce_navigate_err = None,
     ce_waitload_err = None, ce_click_connect_err = None, ce_has_note_option = True,
     ce_click_add_note_err = None, ce_note_page = good_page, ce_click_send_err = None,
     ce_dismiss_err = None, ce_record_request_fault = None, ce_sent_at = 86460,
     ce_record_action_fault = None, ce_action_at = 86461\<rparr>"

definition no_send_button_env :: connect_env where
  "no_send_button_env = ok_connect_env\<lparr>ce_click_send_err := Some (Errorf ''send button not found'')\<rparr>"

definition ok_message_env :: message_env where
  "ok_message_env = \<lparr>me_has_sent_fault = None, me_navigate_err = None, me_waitload_err = None,
     me_click_message_err = None, me_type_message_err = None, me_click_send_err = None,
     me_record_message_fault = None, me_sent_at = 86460, me_record_action_fault = None,
     me_action_at = 86461\<rparr>"

definition lost_record_env :: message_env where
  "lost_record_env = ok_message_env\<lparr>me_record_message_fault := Some (Errorf ''database is locked'')\<rparr>"

definition empty_db :: database where
  "empty_db = \<lparr>connection_requests = [], messages = [], actions = []\<rparr>"

definition sample_request :: ConnectionRequest where
  "sample_request = \<lparr>cr_ProfileURL = ''https://example.org/in/a'', cr_Note = ''hello'',
     cr_SentAt = 86401, cr_Accepted = False\<rparr>"

definition four_requests_db :: database where
  "four_requests_db = empty_db\<lparr>connection_requests :=
     [sample_request, sample_request, sample_request, sample_request]\<rparr>"

definition limit5 :: Config where
  "limit5 = \<lparr>DailyLimit = 5\<rparr>"

definition one_message_db :: database where
  "one_message_db = empty_db\<lparr>messages :=
     [\<lparr>msg_ProfileURL = ''https://example.org/in/a'', msg_Message = ''hi'', msg_SentAt = 86460\<rparr>]\<rparr>"

definition two_calls :: "(message_env \<times> string \<times> string) list" where
  "two_calls = [(ok_message_env, ''https://example.org/in/a'', ''hi''),
                (ok_message_env, ''https://example.org/in/a'', ''again'')]"

definition lost_calls :: "(message_env \<times> string \<times> string) list" where
  "lost_calls = [(lost_record_env, ''https://example.org/in/a'', ''hi''),
                 (lost_record_env, ''https://example.org/in/a'', ''hi'')]"

section \<open>Properties\<close>

subsection \<open>Signed 64-bit arithmetic without overflow\<close>

lemma sint_of_nat_small: "k < 2 ^ 63 \<Longrightarrow> sint (word_of_nat k :: 64 word) = int k"
proof -
  assume k: "k < 2 ^ 63"
  have "sint (word_of_nat k :: 64 word) = sint (word_of_int (int k) :: 64 word)"
    by simp
  also have "\<dots> = signed_take_bit 63 (int k)"
    by (simp only: sint_sbintrunc') simp
  also have "\<dots> = int k"
    using k by (intro signed_take_bit_int_eq_self) auto
  finally show ?thesis .
qed

lemma unat_of_pos_sint: "0 \<le> sint (w :: 64 word) \<Longrightarrow> int (unat w) = sint w"
proof -
  assume p: "0 \<le> sint w"
  have lt: "sint w < 2 ^ 63" using sint_lt [of w] by simp
  have "uint w = take_bit 64 (sint w)" using uint_sint [of w] by simp
  also have "\<dots> = sint w" using p lt by (intro take_bit_int_eq_self) auto
  finally show ?thesis by simp
qed

lemma sint_sub_no_overflow:
  fixes a b :: "64 word"
  assumes "- (2 ^ 63) \<le> sint a - sint b" "sint a - sint b < 2 ^ 63"
  shows "sint (a - b) = sint a - sint b"
  using assms by (simp add: sint_word_ariths signed_take_bit_int_eq_self)

lemma sint_add_no_overflow:
  fixes a b :: "64 word"
  assumes "- (2 ^ 63) \<le> sint a + sint b" "sint a + sint b < 2 ^ 63"
  shows "sint (a + b) = sint a + sint b"
  using assms by (simp add: sint_word_ariths signed_take_bit_int_eq_self)

subsection \<open>The timing primitive\<close>

lemma RandomDelay_range:
  assumes lt: "mn <s mx" and fit: "sint mx - sint mn < 2 ^ 63"
  shows "\<exists>d. fst (RandomDelay mn mx g) = Inr d \<and> sint mn \<le> sint d \<and> sint d < sint mx"
proof -
  define delta where "delta = mx - mn"
  have pos: "0 < sint mx - sint mn" using lt by (simp add: word_sless_alt)
  have sd: "sint delta = sint mx - sint mn"
    unfolding delta_def using pos fit by (intro sint_sub_no_overflow) auto
  have ud: "int (unat delta) = sint mx - sint mn"
    using unat_of_pos_sint [of delta] sd pos by simp
  define k where "k = g 0 mod unat delta"
  have kpos: "0 < unat delta" using ud pos by linarith
  have klt: "int k < sint mx - sint mn"
    using kpos ud unfolding k_def by (metis mod_less_divisor of_nat_less_iff)
  have "int k < 2 ^ 63" using klt fit by linarith
  then have k63: "k < 2 ^ 63" by simp
  have sk: "sint (word_of_nat k :: 64 word) = int k" using k63 by (rule sint_of_nat_small)
  have bounds: "- (2 ^ 63) \<le> sint mn + int k" "sint mn + int k < 2 ^ 63"
    using sint_ge [of mn] sint_lt [of mx] klt by simp_all
  have sdd: "sint (mn + word_of_nat k) = sint mn + int k"
    using bounds sk sint_add_no_overflow [of mn "word_of_nat k"] by simp
  have nle: "\<not> mx \<le>s mn" using lt by (simp add: word_sle_eq word_sless_alt)
  have npan: "\<not> delta \<le>s 0" using sd pos by (simp add: word_sle_eq)
  have "fst (RandomDelay mn mx g) = Inr (mn + word_of_nat k)"
    using nle npan unfolding RandomDelay_def Int63n_def draw_def k_def delta_def Let_def
    by simp
  then show ?thesis using sdd klt by auto
qed

text \<open>
  Claim C2, as amended. For durations \<open>min \<le> max\<close> whose difference \<open>max - min\<close> fits in
  an \<open>int64\<close> (every pair of non-negative durations does), \<open>RandomDelay min max\<close>
  returns a value \<open>d\<close> with \<open>min \<le> d \<le> max\<close>; for \<open>min \<ge> max\<close> it returns exactly
  \<open>min\<close>. The result is a returned value, never a panic.
\<close>

theorem RandomDelay_within_bounds:
  "(mn \<le>s mx \<and> sint mx - sint mn < 2 ^ 63 \<longrightarrow>
      (case fst (RandomDelay mn mx g) of Inr d \<Rightarrow> mn \<le>s d \<and> d \<le>s mx | Inl e \<Rightarrow> False)) \<and>
   (mx \<le>s mn \<longrightarrow> fst (RandomDelay mn mx g) = Inr mn)"
proof (intro conjI impI)
  assume h: "mn \<le>s mx \<and> sint mx - sint mn < 2 ^ 63"
  show "case fst (RandomDelay mn mx g) of Inr d \<Rightarrow> mn \<le>s d \<and> d \<le>s mx | Inl e \<Rightarrow> False"
  proof (cases "mn = mx")
    case True
    then show ?thesis by (simp add: RandomDelay_def)
  next
    case False
    with h have "mn <s mx" by (simp add: signed.less_le)
    from RandomDelay_range [OF this, of g] h
    obtain d where "fst (RandomDelay mn mx g) = Inr d" "sint mn \<le> sint d" "sint d < sint mx"
      by blast
    then show ?thesis by (simp add: word_sle_eq)
  qed
next
  assume "mx \<le>s mn"
  then show "fst (RandomDelay mn mx g) = Inr mn" by (simp add: RandomDelay_def)
qed

theorem RandomDelay_within_bounds_witness:
  "((5 :: duration) \<le>s 10 \<and> sint (10 :: duration) - sint (5 :: duration) < 2 ^ 63) \<and>
   (case fst (RandomDelay 5 10 (const_rng 7)) of Inr d \<Rightarrow> 5 \<le>s d \<and> d \<le>s 10 | Inl e \<Rightarrow> False) \<and>
   (10 :: duration) \<le>s 10 \<and> fst (RandomDelay 10 10 (const_rng 7)) = Inr 10"
  using RandomDelay_within_bounds [of 5 10 "const_rng 7"]
        RandomDelay_within_bounds [of 10 10 "const_rng 7"]
  by (simp add: word_sle_eq)

text \<open>
  The claim as stated, for every pair \<open>min \<le> max\<close>, fails where the subtraction
  overflows: with \<open>min = -2\<^sup>6\<^sup>3\<close> and \<open>max = 1\<close> the wrapped \<open>delta\<close> is negative and
  \<open>Int63n\<close> panics, so no duration is returned.
\<close>

theorem RandomDelay_overflow_counterexample:
  "(- (2 ^ 63) :: duration) \<le>s 1 \<and>
   fst (RandomDelay (- (2 ^ 63)) 1 (const_rng 0)) = Inl (Panic ''invalid argument to Int63n'')"
  by (simp add: RandomDelay_def Int63n_def draw_def const_rng_def word_sle_eq)

subsection \<open>Cooldown\<close>

lemma baseCooldown_cases:
  "baseCooldown a = 2 * Minute \<or> baseCooldown a = 3 * Minute \<or> baseCooldown a = 5 * Minute"
  by (simp add: baseCooldown_def)

lemma cooldown_range:
  assumes "b = 2 * Minute \<or> b = 3 * Minute \<or> b = 5 * Minute"
  shows "case fst (RandomDelay b (b * 2) g) of Inr d \<Rightarrow> b \<le>s d \<and> d \<le>s 2 * b | Inl e \<Rightarrow> False"
proof -
  have "b <s b * 2 \<and> sint (b * 2) - sint b < 2 ^ 63"
    using assms by (auto simp: Minute_def word_sless_alt)
  then obtain d where "fst (RandomDelay b (b * 2) g) = Inr d" "sint b \<le> sint d" "sint d < sint (b * 2)"
    using RandomDelay_range [of b "b * 2" g] by blast
  then show ?thesis by (simp add: word_sle_eq mult.commute)
qed

text \<open>
  Claim C7. For every hourly action count the cooldown is a returned duration in
  \<open>[base, 2 * base]\<close>, where \<open>base\<close> is 2 minutes for counts of at most 10, 3 minutes for
  counts above 10 up to 15 and 5 minutes above 15; \<open>base\<close> never decreases when the
  count grows.
\<close>

theorem GetCooldownDuration_range:
  "(case fst (GetCooldownDuration a g) of
      Inr d \<Rightarrow> baseCooldown a \<le>s d \<and> d \<le>s 2 * baseCooldown a | Inl e \<Rightarrow> False) \<and>
   baseCooldown a =
     (if a \<le>s 10 then 2 * Minute else if a \<le>s 15 then 3 * Minute else 5 * Minute) \<and>
   (a \<le>s b \<longrightarrow> baseCooldown a \<le>s baseCooldown b)"
proof (intro conjI impI)
  show "case fst (GetCooldownDuration a g) of
      Inr d \<Rightarrow> baseCooldown a \<le>s d \<and> d \<le>s 2 * baseCooldown a | Inl e \<Rightarrow> False"
    unfolding GetCooldownDuration_def by (rule cooldown_range [OF baseCooldown_cases])
  show "baseCooldown a =
     (if a \<le>s 10 then 2 * Minute else if a \<le>s 15 then 3 * Minute else 5 * Minute)"
    by (auto simp: baseCooldown_def word_sle_eq word_sless_alt)
  assume "a \<le>s b"
  then show "baseCooldown a \<le>s baseCooldown b"
    by (auto simp: baseCooldown_def Minute_def word_sle_eq word_sless_alt)
qed

theorem GetCooldownDuration_range_witness:
  "(case fst (GetCooldownDuration 12 (const_rng 7)) of
      Inr d \<Rightarrow> baseCooldown 12 \<le>s d \<and> d \<le>s 2 * baseCooldown 12 | Inl e \<Rightarrow> False) \<and>
   baseCooldown 12 = 3 * Minute \<and>
   (12 :: go_int) \<le>s 16 \<and> baseCooldown 12 \<le>s baseCooldown 16"
proof -
  have le: "(12 :: go_int) \<le>s 16" by (simp add: word_sle_eq)
  have b12: "baseCooldown 12 = 3 * Minute"
    using GetCooldownDuration_range [of 12 "const_rng 7" 16] by (simp add: word_sle_eq)
  show ?thesis
    using GetCooldownDuration_range [of 12 "const_rng 7" 16] le b12 by blast
qed

subsection \<open>Motion path\<close>















subsection \<open>Decoding and splitting\<close>





lemma nth_app_space:
  "(bs @ 32 # b) ! i = (if i < length bs then bs ! i else if i = length bs then 32 else b ! (i - Suc (length bs)))"
  by (simp add: nth_append nth_Cons')






subsection \<open>Typing traces\<close>











subsection \<open>The typing routines\<close>















subsection \<open>Admission\<close>




subsection \<open>The connection-request pipeline\<close>

lemma recordRequest_rows:
  "ce_record_request_fault env = None \<Longrightarrow> ce_record_action_fault env = None \<Longrightarrow>
     connection_requests (recordRequest env url nt db) =
       connection_requests db @ [\<lparr>cr_ProfileURL = url, cr_Note = nt, cr_SentAt = ce_sent_at env,
                                   cr_Accepted = False\<rparr>] \<and>
     actions (recordRequest env url nt db) =
       actions db @ [\<lparr>act_ActionType = ''connection_request'', act_Timestamp = ce_action_at env\<rparr>]"
  by (simp add: recordRequest_def RecordConnectionRequest_def RecordAction_def)

lemma connectSteps_p3_ok:
  "(fst (connectSteps_p3 env url nt) = None) =
     (ce_navigate_err env = None \<and> ce_waitload_err env = None \<and>
      ce_click_connect_err env = None \<and> ce_click_send_err env = None)"
  by (cases "ce_navigate_err env"; cases "ce_waitload_err env";
      cases "ce_click_connect_err env"; cases "ce_click_send_err env")
     (simp_all add: connectSteps_p3_def Let_def)

lemma connectSteps_p3_send:
  "fst (connectSteps_p3 env url nt) = None \<Longrightarrow> ClickSend \<in> set (snd (connectSteps_p3 env url nt))"
  by (cases "ce_navigate_err env"; cases "ce_waitload_err env";
      cases "ce_click_connect_err env"; cases "ce_click_send_err env")
     (simp_all add: connectSteps_p3_def Let_def)

lemma connectSteps_ok:
  "(fst (fst (connectSteps L env url nt g)) = None) =
     (ce_navigate_err env = None \<and> ce_waitload_err env = None \<and>
      ce_click_connect_err env = None \<and> ce_click_send_err env = None)"
  by (cases "ce_navigate_err env"; cases "ce_waitload_err env";
      cases "ce_click_connect_err env"; cases "ce_click_send_err env")
     (simp_all add: connectSteps_def split: prod.splits)

lemma connectSteps_send:
  "fst (fst (connectSteps L env url nt g)) = None \<Longrightarrow>
     ClickSend \<in> set (snd (fst (connectSteps L env url nt g)))"
  by (cases "ce_navigate_err env"; cases "ce_waitload_err env";
      cases "ce_click_connect_err env"; cases "ce_click_send_err env")
     (simp_all add: connectSteps_def split: prod.splits)

lemma SendConnectionRequest_p3_reaches:
  assumes "reaches_send env cfg db"
  shows "SendConnectionRequest_p3 env url nt cfg db =
           (None, recordRequest env url (effectiveNote nt) db, snd (connectSteps_p3 env url nt))"
proof -
  have ok: "fst (connectSteps_p3 env url nt) = None"
    using assms by (simp add: connectSteps_p3_ok reaches_send_def)
  obtain r steps where cs: "connectSteps_p3 env url nt = (r, steps)"
    by (cases "connectSteps_p3 env url nt")
  with ok have r: "r = None" by simp
  show ?thesis
    using assms cs r
    by (simp add: SendConnectionRequest_p3_def reaches_send_def GetConnectionRequestsSentToday_def)
qed

lemma SendConnectionRequest_p3_fails:
  assumes "\<not> reaches_send env cfg db"
  shows "fst (SendConnectionRequest_p3 env url nt cfg db) \<noteq> None \<and>
         fst (snd (SendConnectionRequest_p3 env url nt cfg db)) = db"
proof (cases "ce_count_fault env")
  case (Some e)
  then show ?thesis
    by (simp add: SendConnectionRequest_p3_def GetConnectionRequestsSentToday_def)
next
  case None
  note cf = None
  show ?thesis
  proof (cases "DailyLimit cfg \<le>s fst (GetConnectionRequestsSentToday None (ce_now env) db)")
    case True
    then show ?thesis using cf
      by (simp add: SendConnectionRequest_p3_def GetConnectionRequestsSentToday_def)
  next
    case False
    then have "fst (connectSteps_p3 env url nt) \<noteq> None"
      using assms cf by (simp add: connectSteps_p3_ok reaches_send_def)
    then obtain e steps where "connectSteps_p3 env url nt = (Some e, steps)"
      by (cases "connectSteps_p3 env url nt") auto
    then show ?thesis using cf False
      by (simp add: SendConnectionRequest_p3_def GetConnectionRequestsSentToday_def)
  qed
qed

lemma SendConnectionRequest_reaches:
  assumes "reaches_send env cfg db"
  shows "fst (fst (SendConnectionRequest L env url nt cfg db g)) = None \<and>
         fst (snd (fst (SendConnectionRequest L env url nt cfg db g))) = recordRequest env url nt db \<and>
         ClickSend \<in> set (snd (snd (fst (SendConnectionRequest L env url nt cfg db g))))"
proof -
  have ok: "fst (fst (connectSteps L env url nt g)) = None"
    using assms by (simp add: connectSteps_ok reaches_send_def)
  obtain r steps g' where cs: "connectSteps L env url nt g = ((r, steps), g')"
    by (cases "connectSteps L env url nt g") auto
  with ok have r: "r = None" by simp
  have "ClickSend \<in> set steps" using connectSteps_send [OF ok] cs by simp
  then show ?thesis
    using assms cs r
    by (simp add: SendConnectionRequest_def reaches_send_def GetConnectionRequestsSentToday_def)
qed

lemma SendConnectionRequest_fails:
  assumes "\<not> reaches_send env cfg db"
  shows "fst (fst (SendConnectionRequest L env url nt cfg db g)) \<noteq> None \<and>
         fst (snd (fst (SendConnectionRequest L env url nt cfg db g))) = db"
proof (cases "ce_count_fault env")
  case (Some e)
  then show ?thesis
    by (simp add: SendConnectionRequest_def GetConnectionRequestsSentToday_def)
next
  case None
  note cf = None
  show ?thesis
  proof (cases "DailyLimit cfg \<le>s fst (GetConnectionRequestsSentToday None (ce_now env) db)")
    case True
    then show ?thesis using cf
      by (simp add: SendConnectionRequest_def GetConnectionRequestsSentToday_def)
  next
    case False
    then have "fst (fst (connectSteps L env url nt g)) \<noteq> None"
      using assms cf by (simp add: connectSteps_ok reaches_send_def)
    then obtain e steps g' where "connectSteps L env url nt g = ((Some e, steps), g')"
      by (cases "connectSteps L env url nt g") auto
    then show ?thesis using cf False
      by (simp add: SendConnectionRequest_def GetConnectionRequestsSentToday_def)
  qed
qed

text \<open>
  Claim C5. In both versions of \<open>SendConnectionRequest\<close>, a run that reaches the
  successful send step returns nil after clicking Send and hands the request and the
  rate-limiting action to the storage (both rows are written when the two inserts
  succeed); every other run, stopped by a failed count query, the reached limit, a
  failed navigation or page load, or a Connect or Send button that cannot be clicked,
  returns an error and leaves the database as it was.
\<close>

theorem persist_only_after_send:
  "(reaches_send env cfg db \<longrightarrow>
      fst (SendConnectionRequest_p3 env url nt cfg db) = None \<and>
      fst (snd (SendConnectionRequest_p3 env url nt cfg db)) =
        recordRequest env url (effectiveNote nt) db \<and>
      ClickSend \<in> set (snd (snd (SendConnectionRequest_p3 env url nt cfg db))) \<and>
      fst (fst (SendConnectionRequest L env url nt cfg db g)) = None \<and>
      fst (snd (fst (SendConnectionRequest L env url nt cfg db g))) =
        recordRequest env url nt db \<and>
      ClickSend \<in> set (snd (snd (fst (SendConnectionRequest L env url nt cfg db g))))) \<and>
   (\<not> reaches_send env cfg db \<longrightarrow>
      fst (SendConnectionRequest_p3 env url nt cfg db) \<noteq> None \<and>
      fst (snd (SendConnectionRequest_p3 env url nt cfg db)) = db \<and>
      fst (fst (SendConnectionRequest L env url nt cfg db g)) \<noteq> None \<and>
      fst (snd (fst (SendConnectionRequest L env url nt cfg db g))) = db) \<and>
   (ce_record_request_fault env = None \<and> ce_record_action_fault env = None \<longrightarrow>
      connection_requests (recordRequest env url nt db) =
        connection_requests db @ [\<lparr>cr_ProfileURL = url, cr_Note = nt,
                                    cr_SentAt = ce_sent_at env, cr_Accepted = False\<rparr>] \<and>
      actions (recordRequest env url nt db) =
        actions db @ [\<lparr>act_ActionType = ''connection_request'',
                       act_Timestamp = ce_action_at env\<rparr>])"
proof (intro conjI impI)
  assume r: "reaches_send env cfg db"
  show "fst (SendConnectionRequest_p3 env url nt cfg db) = None"
    and "fst (snd (SendConnectionRequest_p3 env url nt cfg db)) =
        recordRequest env url (effectiveNote nt) db"
    by (simp_all add: SendConnectionRequest_p3_reaches [OF r])
  have "fst (connectSteps_p3 env url nt) = None"
    using r by (simp add: connectSteps_p3_ok reaches_send_def)
  then show "ClickSend \<in> set (snd (snd (SendConnectionRequest_p3 env url nt cfg db)))"
    using connectSteps_p3_send by (simp add: SendConnectionRequest_p3_reaches [OF r])
  show "fst (fst (SendConnectionRequest L env url nt cfg db g)) = None"
    and "fst (snd (fst (SendConnectionRequest L env url nt cfg db g))) =
        recordRequest env url nt db"
    and "ClickSend \<in> set (snd (snd (fst (SendConnectionRequest L env url nt cfg db g))))"
    using SendConnectionRequest_reaches [OF r] by simp_all
next
  assume n: "\<not> reaches_send env cfg db"
  show "fst (SendConnectionRequest_p3 env url nt cfg db) \<noteq> None"
    and "fst (snd (SendConnectionRequest_p3 env url nt cfg db)) = db"
    using SendConnectionRequest_p3_fails [OF n] by simp_all
  show "fst (fst (SendConnectionRequest L env url nt cfg db g)) \<noteq> None"
    and "fst (snd (fst (SendConnectionRequest L env url nt cfg db g))) = db"
    using SendConnectionRequest_fails [OF n] by simp_all
next
  assume "ce_record_request_fault env = None \<and> ce_record_action_fault env = None"
  then show "connection_requests (recordRequest env url nt db) =
        connection_requests db @ [\<lparr>cr_ProfileURL = url, cr_Note = nt,
                                    cr_SentAt = ce_sent_at env, cr_Accepted = False\<rparr>]"
    and "actions (recordRequest env url nt db) =
        actions db @ [\<lparr>act_ActionType = ''connection_request'',
                       act_Timestamp = ce_action_at env\<rparr>]"
    using recordRequest_rows [of env url nt db] by simp_all
qed

text \<open>
  Four requests are recorded today and the limit is 5. With a Send button that cannot
  be clicked the run fails and the database keeps its four requests; when every step
  succeeds the run returns nil and the database holds a fifth.
\<close>

theorem persist_only_after_send_witness:
  "\<not> reaches_send no_send_button_env limit5 four_requests_db \<and>
   fst (SendConnectionRequest_p3 no_send_button_env ''https://example.org/in/b'' ''hello''
          limit5 four_requests_db) \<noteq> None \<and>
   fst (snd (SendConnectionRequest_p3 no_send_button_env ''https://example.org/in/b'' ''hello''
          limit5 four_requests_db)) = four_requests_db \<and>
   reaches_send ok_connect_env limit5 four_requests_db \<and>
   fst (SendConnectionRequest_p3 ok_connect_env ''https://example.org/in/b'' ''hello''
          limit5 four_requests_db) = None \<and>
   ClickSend \<in> set (snd (snd (SendConnectionRequest_p3 ok_connect_env
          ''https://example.org/in/b'' ''hello'' limit5 four_requests_db))) \<and>
   (ce_record_request_fault ok_connect_env = None \<and> ce_record_action_fault ok_connect_env = None) \<and>
   length (connection_requests (fst (snd (SendConnectionRequest_p3 ok_connect_env
          ''https://example.org/in/b'' ''hello'' limit5 four_requests_db)))) = 5"
proof -
  have cnt: "fst (GetConnectionRequestsSentToday None 86400 four_requests_db) = 4"
    by (simp add: GetConnectionRequestsSentToday_def four_requests_db_def empty_db_def date_def
        sample_request_def)
  have n: "\<not> reaches_send no_send_button_env limit5 four_requests_db"
    by (simp add: reaches_send_def no_send_button_env_def ok_connect_env_def)
  have r: "reaches_send ok_connect_env limit5 four_requests_db"
    using cnt by (simp add: reaches_send_def ok_connect_env_def limit5_def word_sle_eq)
  have rf: "ce_record_request_fault ok_connect_env = None \<and> ce_record_action_fault ok_connect_env = None"
    by (simp add: ok_connect_env_def)
  have len: "length (connection_requests four_requests_db) = 4"
    by (simp add: four_requests_db_def empty_db_def)
  have e: "effectiveNote ''hello'' = ''hello''" by (simp add: effectiveNote_def)
  note bad = persist_only_after_send [where env = no_send_button_env
      and url = "''https://example.org/in/b''" and nt = "''hello''" and cfg = limit5
      and db = four_requests_db and L = ascii_toLower0 and g = "const_rng 1"]
  note good = persist_only_after_send [where env = ok_connect_env
      and url = "''https://example.org/in/b''" and nt = "''hello''" and cfg = limit5
      and db = four_requests_db and L = ascii_toLower0 and g = "const_rng 1"]
  have l5: "length (connection_requests (fst (snd (SendConnectionRequest_p3 ok_connect_env
          ''https://example.org/in/b'' ''hello'' limit5 four_requests_db)))) = 5"
    using good r rf len e by simp
  show ?thesis
    using bad good n r rf l5 by simp
qed

subsection \<open>Follow-up messages\<close>

lemma recordSent_keeps: "set (messages db) \<subseteq> set (messages (recordSent env u m db))"
  by (cases "me_record_message_fault env"; cases "me_record_action_fault env")
     (auto simp: recordSent_def RecordMessage_def RecordAction_def)

lemma recordSent_records:
  "me_record_message_fault env = None \<Longrightarrow>
     u \<in> msg_ProfileURL ` set (messages (recordSent env u m db))"
  by (cases "me_record_action_fault env")
     (simp_all add: recordSent_def RecordMessage_def RecordAction_def)

lemma HasSentMessage_recorded:
  "u \<in> msg_ProfileURL ` set (messages db) \<Longrightarrow> HasSentMessage None u db = (True, None)"
proof -
  assume "u \<in> msg_ProfileURL ` set (messages db)"
  then have "filter (\<lambda>m. msg_ProfileURL m = u) (messages db) \<noteq> []"
    by (auto simp: filter_empty_conv)
  then show ?thesis by (simp add: HasSentMessage_def)
qed

lemma SendMessage_recorded:
  assumes "me_has_sent_fault env = None" "u \<in> msg_ProfileURL ` set (messages db)"
  shows "SendMessage env u m db = (None, db, [])"
  using assms HasSentMessage_recorded [of u db] by (simp add: SendMessage_def)

lemma SendMessage_fault:
  assumes "me_has_sent_fault env = Some e"
  shows "SendMessage env u m db = (Some (Wrapf ''failed to check message history''
           (Wrapf ''failed to check message history'' e)), db, [])"
  using assms by (simp add: SendMessage_def HasSentMessage_def)

lemma SendMessage_keeps_messages:
  "set (messages db) \<subseteq> set (messages (fst (snd (SendMessage env u m db))))"
proof (cases "me_has_sent_fault env")
  case (Some e)
  then show ?thesis by (simp add: SendMessage_fault)
next
  case None
  obtain r steps where ms: "messageSteps env u m = (r, steps)" by (cases "messageSteps env u m")
  show ?thesis
    using None ms recordSent_keeps [of db env u m]
    by (cases r) (simp_all add: SendMessage_def HasSentMessage_def)
qed

lemma SendMessage_no_delivery:
  assumes "u \<in> msg_ProfileURL ` set (messages db)"
  shows "\<not> sent_ok (SendMessage env u m db)"
proof (cases "me_has_sent_fault env")
  case (Some e)
  then show ?thesis by (simp add: SendMessage_fault sent_ok_def)
next
  case None
  then show ?thesis using SendMessage_recorded [OF None assms] by (simp add: sent_ok_def)
qed

lemma SendMessage_delivery_recorded:
  assumes "sent_ok (SendMessage env u m db)" "me_record_message_fault env = None"
  shows "u \<in> msg_ProfileURL ` set (messages (fst (snd (SendMessage env u m db))))"
proof (cases "me_has_sent_fault env")
  case (Some e)
  then show ?thesis using assms(1) by (simp add: SendMessage_fault sent_ok_def)
next
  case None
  note hf = None
  show ?thesis
  proof (cases "u \<in> msg_ProfileURL ` set (messages db)")
    case True
    then show ?thesis using SendMessage_recorded [OF hf True] by simp
  next
    case False
    then have nf: "filter (\<lambda>x. msg_ProfileURL x = u) (messages db) = []"
      by (auto simp: filter_empty_conv)
    obtain r steps where ms: "messageSteps env u m = (r, steps)" by (cases "messageSteps env u m")
    show ?thesis
    proof (cases r)
      case None
      then show ?thesis
        using hf nf ms recordSent_records [OF assms(2), of u m db]
        by (simp add: SendMessage_def HasSentMessage_def)
    next
      case (Some e)
      then have "fst (SendMessage env u m db) \<noteq> None"
        using hf nf ms by (simp add: SendMessage_def HasSentMessage_def)
      then show ?thesis using assms(1) by (simp add: sent_ok_def)
    qed
  qed
qed

lemma delivered_none:
  "url \<in> msg_ProfileURL ` set (messages db) \<Longrightarrow> delivered url calls db = 0"
proof (induction calls arbitrary: db)
  case Nil
  then show ?case by simp
next
  case (Cons c calls)
  obtain env u m where c: "c = (env, u, m)" by (cases c)
  have keep: "url \<in> msg_ProfileURL ` set (messages (fst (snd (SendMessage env u m db))))"
    using Cons.prems SendMessage_keeps_messages [of db env u m] by blast
  have "u = url \<Longrightarrow> \<not> sent_ok (SendMessage env u m db)"
    using Cons.prems SendMessage_no_delivery by blast
  then show ?case using Cons.IH [OF keep] c by (auto simp: Let_def)
qed

lemma delivered_at_most_once:
  "records_stored calls \<Longrightarrow> delivered url calls db \<le> 1"
  unfolding records_stored_def list_all_iff
proof (induction calls arbitrary: db)
  case Nil
  then show ?case by simp
next
  case (Cons c calls)
  obtain env u m where c: "c = (env, u, m)" by (cases c)
  have rest: "\<forall>c \<in> set calls. me_record_message_fault (fst c) = None" using Cons.prems by simp
  show ?case
  proof (cases "u = url \<and> sent_ok (SendMessage env u m db)")
    case True
    have "me_record_message_fault env = None" using Cons.prems c by simp
    with True have "url \<in> msg_ProfileURL ` set (messages (fst (snd (SendMessage env u m db))))"
      using SendMessage_delivery_recorded by blast
    then have "delivered url calls (fst (snd (SendMessage env u m db))) = 0"
      by (rule delivered_none)
    then show ?thesis using True c by (simp add: Let_def)
  next
    case False
    then show ?thesis using Cons.IH [OF rest] c by (auto simp: Let_def)
  qed
qed

text \<open>
  Claim C10, as amended. When the storage lookup finds a message recorded for the
  profile, \<open>SendMessage\<close> returns nil at once: it takes no page step and leaves the
  database as it is, and no later invocation delivers to that profile. Across any
  sequence of invocations in which the record of each sent message is stored, a
  profile is delivered at most one message.
\<close>

theorem message_sent_once:
  "(me_has_sent_fault env = None \<and> url \<in> msg_ProfileURL ` set (messages db) \<longrightarrow>
      SendMessage env url message db = (None, db, [])) \<and>
   (url \<in> msg_ProfileURL ` set (messages db) \<longrightarrow> delivered url calls db = 0) \<and>
   (records_stored calls \<longrightarrow> delivered url calls db \<le> 1)"
proof (intro conjI impI)
  assume "me_has_sent_fault env = None \<and> url \<in> msg_ProfileURL ` set (messages db)"
  then show "SendMessage env url message db = (None, db, [])"
    using SendMessage_recorded by blast
next
  assume "url \<in> msg_ProfileURL ` set (messages db)"
  then show "delivered url calls db = 0" by (rule delivered_none)
next
  assume "records_stored calls"
  then show "delivered url calls db \<le> 1" by (rule delivered_at_most_once)
qed

theorem message_sent_once_witness:
  "(me_has_sent_fault ok_message_env = None \<and>
    ''https://example.org/in/a'' \<in> msg_ProfileURL ` set (messages one_message_db)) \<and>
   SendMessage ok_message_env ''https://example.org/in/a'' ''again'' one_message_db
     = (None, one_message_db, []) \<and>
   delivered ''https://example.org/in/a'' two_calls one_message_db = 0 \<and>
   records_stored two_calls \<and>
   delivered ''https://example.org/in/a'' two_calls empty_db \<le> 1"
proof -
  have f: "me_has_sent_fault ok_message_env = None \<and>
    ''https://example.org/in/a'' \<in> msg_ProfileURL ` set (messages one_message_db)"
    by (simp add: ok_message_env_def one_message_db_def empty_db_def)
  have a: "records_stored two_calls"
    by (simp add: records_stored_def two_calls_def ok_message_env_def)
  note m1 = message_sent_once [where env = ok_message_env
      and url = "''https://example.org/in/a''" and db = one_message_db
      and message = "''again''" and calls = two_calls]
  note m2 = message_sent_once [where env = ok_message_env
      and url = "''https://example.org/in/a''" and db = empty_db
      and message = "''again''" and calls = two_calls]
  show ?thesis
    using m1 m2 f a by blast
qed

text \<open>
  The claim as stated promises at most one message across all invocations. When the
  insert of the message record fails, the failure is only logged: the next invocation
  finds no record and sends again.
\<close>

theorem message_sent_twice_counterexample:
  "me_record_message_fault lost_record_env = Some (Errorf ''database is locked'') \<and>
   SendMessage lost_record_env ''https://example.org/in/a'' ''hi'' empty_db =
     (None, fst (snd (SendMessage lost_record_env ''https://example.org/in/a'' ''hi'' empty_db)),
      [Navigate ''https://example.org/in/a'', WaitLoad, ClickMessage, TypeMessage ''hi'',
       ClickSendMessage]) \<and>
   messages (fst (snd (SendMessage lost_record_env ''https://example.org/in/a'' ''hi'' empty_db)))
     = [] \<and>
   delivered ''https://example.org/in/a'' lost_calls empty_db = 2"
proof -
  have ms: "messageSteps lost_record_env ''https://example.org/in/a'' ''hi'' =
      (None, [Navigate ''https://example.org/in/a'', WaitLoad, ClickMessage, TypeMessage ''hi'',
       ClickSendMessage])"
    by (simp add: messageSteps_def lost_record_env_def ok_message_env_def)
  have rs: "messages (recordSent lost_record_env ''https://example.org/in/a'' ''hi'' db) = messages db"
    for db
    by (simp add: recordSent_def RecordMessage_def RecordAction_def lost_record_env_def
        ok_message_env_def)
  have hf: "me_has_sent_fault lost_record_env = None"
    by (simp add: lost_record_env_def ok_message_env_def)
  have sm: "messages db = [] \<Longrightarrow>
      SendMessage lost_record_env ''https://example.org/in/a'' ''hi'' db =
       (None, recordSent lost_record_env ''https://example.org/in/a'' ''hi'' db,
        [Navigate ''https://example.org/in/a'', WaitLoad, ClickMessage, TypeMessage ''hi'',
         ClickSendMessage])" for db
    using ms hf by (simp add: SendMessage_def HasSentMessage_def)
  have e: "messages empty_db = []" by (simp add: empty_db_def)
  have e2: "messages (recordSent lost_record_env ''https://example.org/in/a'' ''hi'' empty_db) = []"
    using rs e by simp
  show ?thesis
    using sm [OF e] sm [OF e2] e2
    by (simp add: lost_calls_def sent_ok_def lost_record_env_def ok_message_env_def)
qed

end
